theory Spec2Isabelle
  imports Main "HOL-Library.AList" "HOL-Library.Sublist"
begin

section \<open>Python values, dictionaries and exceptions\<close>

text \<open>
  The handlers work on untyped JSON-like payloads. A value is one of Python's JSON
  types; a dict is an association list in insertion order, read with \<open>map_of\<close> and
  written with \<open>AList.update\<close> (an existing key keeps its place, a new key goes last).
  Floats do not occur in what is modelled.
\<close>

datatype pyval =
    PNone
  | PBool bool
  | PInt int
  | PStr string
  | PList "pyval list"
  | PDict "(string \<times> pyval) list"

type_synonym pydict = "(string \<times> pyval) list"

text \<open>
  The exception classes of common/errors.py: every subclass fixes its error code, the
  base class \<open>MigrationError\<close> takes it as an argument. \<open>PyException\<close> is any other
  exception, with its class name and the text \<open>str(e)\<close> gives; the text of a TypeError,
  AttributeError or IndexError raised by the interpreter is not modelled and left empty.
\<close>

datatype err_class =
    BaseMigrationError
  | ValidationError
  | PrerequisiteError
  | SourcePreparationError
  | MigrationExecutionError
  | VerificationError
  | CutoverError
  | RollbackError

datatype exn =
    MigrationError err_class string string pydict
  | PyException string string

definition TypeError :: exn where
  "TypeError = PyException ''TypeError'' []"

definition AttributeError :: exn where
  "AttributeError = PyException ''AttributeError'' []"

text \<open>\<open>str(KeyError(k))\<close> is the key in single quotes.\<close>

definition KeyError :: "string \<Rightarrow> exn" where
  "KeyError k = PyException ''KeyError'' ([CHR 0x27] @ k @ [CHR 0x27])"

fun class_code :: "err_class \<Rightarrow> string" where
  "class_code BaseMigrationError = []"
| "class_code ValidationError = ''VALIDATION_ERROR''"
| "class_code PrerequisiteError = ''PREREQUISITE_ERROR''"
| "class_code SourcePreparationError = ''SOURCE_PREPARATION_ERROR''"
| "class_code MigrationExecutionError = ''MIGRATION_EXECUTION_ERROR''"
| "class_code VerificationError = ''VERIFICATION_ERROR''"
| "class_code CutoverError = ''CUTOVER_ERROR''"
| "class_code RollbackError = ''ROLLBACK_ERROR''"

text \<open>Raising a subclass: \<open>SubclassError(message, details)\<close>.\<close>

definition raise_error :: "err_class \<Rightarrow> string \<Rightarrow> pydict \<Rightarrow> exn" where
  "raise_error c msg details = MigrationError c (class_code c) msg details"

text \<open>\<open>str(e)\<close>: the message of a MigrationError, the carried text otherwise.\<close>

fun exn_str :: "exn \<Rightarrow> string" where
  "exn_str (MigrationError c code msg details) = msg"
| "exn_str (PyException cls txt) = txt"

text \<open>\<open>MigrationError.to_dict\<close>. Only a MigrationError has the method, and the handlers
  call it only in the \<open>except\<close> clauses of these classes.\<close>

fun to_dict :: "exn \<Rightarrow> pydict" where
  "to_dict (MigrationError c code msg details) =
     [(''error_code'', PStr code), (''message'', PStr msg), (''details'', PDict details)]"
| "to_dict (PyException cls txt) = []"

text \<open>Truthiness, as \<open>if x:\<close> and \<open>not x\<close> test it.\<close>

fun py_truthy :: "pyval \<Rightarrow> bool" where
  "py_truthy PNone = False"
| "py_truthy (PBool b) = b"
| "py_truthy (PInt i) = (i \<noteq> 0)"
| "py_truthy (PStr s) = (s \<noteq> [])"
| "py_truthy (PList xs) = (xs \<noteq> [])"
| "py_truthy (PDict d) = (d \<noteq> [])"

text \<open>\<open>s in t\<close> on strings: \<open>s\<close> occurs in \<open>t\<close> as a contiguous piece.\<close>

fun py_substring :: "string \<Rightarrow> string \<Rightarrow> bool" where
  "py_substring s [] = (s = [])"
| "py_substring s (c # cs) = (prefix s (c # cs) \<or> py_substring s cs)"

text \<open>\<open>k in x\<close> for a string \<open>k\<close>: key membership on a dict, substring on a string,
  element membership on a list, TypeError on the values that are not containers.\<close>

fun py_contains :: "string \<Rightarrow> pyval \<Rightarrow> exn + bool" where
  "py_contains k (PDict d) = Inr (map_of d k \<noteq> None)"
| "py_contains k (PStr s) = Inr (py_substring k s)"
| "py_contains k (PList xs) = Inr (PStr k \<in> set xs)"
| "py_contains k PNone = Inl TypeError"
| "py_contains k (PBool b) = Inl TypeError"
| "py_contains k (PInt i) = Inl TypeError"

text \<open>\<open>x.get(k, default)\<close>: only a dict has the method.\<close>

fun py_get :: "string \<Rightarrow> pyval \<Rightarrow> pyval \<Rightarrow> exn + pyval" where
  "py_get k dflt (PDict d) = Inr (case map_of d k of None \<Rightarrow> dflt | Some v \<Rightarrow> v)"
| "py_get k dflt PNone = Inl AttributeError"
| "py_get k dflt (PBool b) = Inl AttributeError"
| "py_get k dflt (PInt i) = Inl AttributeError"
| "py_get k dflt (PStr s) = Inl AttributeError"
| "py_get k dflt (PList xs) = Inl AttributeError"

text \<open>\<open>x[k]\<close> with a string key: KeyError on a dict without the key, TypeError on
  everything that is not a dict.\<close>

fun py_index :: "pyval \<Rightarrow> string \<Rightarrow> exn + pyval" where
  "py_index (PDict d) k = (case map_of d k of None \<Rightarrow> Inl (KeyError k) | Some v \<Rightarrow> Inr v)"
| "py_index PNone k = Inl TypeError"
| "py_index (PBool b) k = Inl TypeError"
| "py_index (PInt i) k = Inl TypeError"
| "py_index (PStr s) k = Inl TypeError"
| "py_index (PList xs) k = Inl TypeError"

text \<open>\<open>x[k] = v\<close> with a string key.\<close>

fun py_setitem :: "pyval \<Rightarrow> string \<Rightarrow> pyval \<Rightarrow> exn + pyval" where
  "py_setitem (PDict d) k v = Inr (PDict (AList.update k v d))"
| "py_setitem PNone k v = Inl TypeError"
| "py_setitem (PBool b) k v = Inl TypeError"
| "py_setitem (PInt i) k v = Inl TypeError"
| "py_setitem (PStr s) k v = Inl TypeError"
| "py_setitem (PList xs) k v = Inl TypeError"

text \<open>\<open>d.get(k)\<close> and \<open>d.get(k, default)\<close> on a value known to be a dict.\<close>

definition dict_get :: "pydict \<Rightarrow> string \<Rightarrow> pyval \<Rightarrow> pyval" where
  "dict_get d k dflt = (case map_of d k of None \<Rightarrow> dflt | Some v \<Rightarrow> v)"

section \<open>common/correlation.py\<close>

text \<open>\<open>generate_correlation_id\<close>: the argument is the 32 hex digits of a fresh uuid4.\<close>

definition generate_correlation_id :: "string \<Rightarrow> string" where
  "generate_correlation_id uuid_hex = ''mig-'' @ take 8 uuid_hex"

text \<open>The test \<open>"detail" in event and "correlation_id" in event.get("detail", {})\<close>.\<close>

definition detail_has_correlation :: "pyval \<Rightarrow> exn + bool" where
  "detail_has_correlation event =
     (case py_contains ''detail'' event of
        Inl e \<Rightarrow> Inl e
      | Inr False \<Rightarrow> Inr False
      | Inr True \<Rightarrow>
          (case py_get ''detail'' (PDict []) event of
             Inl e \<Rightarrow> Inl e
           | Inr d \<Rightarrow> py_contains ''correlation_id'' d))"

text \<open>The third location: \<open>event["headers"].get("X-Correlation-ID")\<close>, used when truthy.\<close>

definition header_correlation :: "pyval \<Rightarrow> exn + pyval option" where
  "header_correlation event =
     (case py_contains ''headers'' event of
        Inl e \<Rightarrow> Inl e
      | Inr False \<Rightarrow> Inr None
      | Inr True \<Rightarrow>
          (case py_index event ''headers'' of
             Inl e \<Rightarrow> Inl e
           | Inr h \<Rightarrow>
               (case py_get ''X-Correlation-ID'' PNone h of
                  Inl e \<Rightarrow> Inl e
                | Inr c \<Rightarrow> Inr (if py_truthy c then Some c else None))))"

definition extract_correlation_id :: "string \<Rightarrow> pyval \<Rightarrow> exn + pyval" where
  "extract_correlation_id uuid_hex event =
     (case py_contains ''correlation_id'' event of
        Inl e \<Rightarrow> Inl e
      | Inr True \<Rightarrow> py_index event ''correlation_id''
      | Inr False \<Rightarrow>
          (case detail_has_correlation event of
             Inl e \<Rightarrow> Inl e
           | Inr True \<Rightarrow>
               (case py_index event ''detail'' of
                  Inl e \<Rightarrow> Inl e
                | Inr d \<Rightarrow> py_index d ''correlation_id'')
           | Inr False \<Rightarrow>
               (case header_correlation event of
                  Inl e \<Rightarrow> Inl e
                | Inr (Some c) \<Rightarrow> Inr c
                | Inr None \<Rightarrow> Inr (PStr (generate_correlation_id uuid_hex)))))"

text \<open>\<open>inject_correlation_id\<close> mutates the event and returns it; the model returns the
  updated event, or the exception of the failing subscript.\<close>

definition inject_correlation_id :: "pyval \<Rightarrow> pyval \<Rightarrow> exn + pyval" where
  "inject_correlation_id event correlation_id =
     (case py_contains ''detail'' event of
        Inl e \<Rightarrow> Inl e
      | Inr has_detail \<Rightarrow>
          (case (if has_detail then Inr event else py_setitem event ''detail'' (PDict [])) of
             Inl e \<Rightarrow> Inl e
           | Inr event1 \<Rightarrow>
               (case py_index event1 ''detail'' of
                  Inl e \<Rightarrow> Inl e
                | Inr d \<Rightarrow>
                    (case py_setitem d ''correlation_id'' correlation_id of
                       Inl e \<Rightarrow> Inl e
                     | Inr d' \<Rightarrow> py_setitem event1 ''detail'' d'))))"

text \<open>An event dict carries no correlation identifier at any of the three places
  \<open>extract_correlation_id\<close> looks at: the top-level key, the key inside \<open>detail\<close>, a
  truthy \<open>X-Correlation-ID\<close> header.\<close>

definition no_correlation_id :: "pydict \<Rightarrow> bool" where
  "no_correlation_id ev =
     (map_of ev ''correlation_id'' = None \<and>
      (case map_of ev ''detail'' of
         Some (PDict d) \<Rightarrow> map_of d ''correlation_id'' = None
       | Some (PStr s) \<Rightarrow> \<not> py_substring ''correlation_id'' s
       | Some (PList xs) \<Rightarrow> PStr ''correlation_id'' \<notin> set xs
       | _ \<Rightarrow> True) \<and>
      (case map_of ev ''headers'' of
         Some (PDict h) \<Rightarrow> \<not> py_truthy (dict_get h ''X-Correlation-ID'' PNone)
       | _ \<Rightarrow> True))"

text \<open>The nested fields have the shape the handlers expect: \<open>detail\<close> and \<open>headers\<close>,
  when present, are dicts.\<close>

definition nested_dicts :: "pydict \<Rightarrow> bool" where
  "nested_dicts ev =
     ((case map_of ev ''detail'' of None \<Rightarrow> True | Some (PDict d) \<Rightarrow> True | _ \<Rightarrow> False) \<and>
      (case map_of ev ''headers'' of None \<Rightarrow> True | Some (PDict h) \<Rightarrow> True | _ \<Rightarrow> False))"

section \<open>common/dynamodb_helper.py\<close>

text \<open>
  The table maps the key \<open>migrationId\<close> to the stored item. \<open>put_item\<close> replaces the
  item, \<open>update_item\<close> with a SET expression writes the named attributes of the item
  (creating the item from its key when there is none) and leaves the others alone.
  The current time \<open>datetime.utcnow().isoformat()\<close> is the argument \<open>now\<close>.
\<close>

type_synonym table = "pyval \<Rightarrow> pydict option"

definition save_migration_state :: "table \<Rightarrow> string \<Rightarrow> pyval \<Rightarrow> pydict \<Rightarrow> table" where
  "save_migration_state tbl now migration_id state =
     tbl(migration_id \<mapsto>
       [(''migrationId'', migration_id),
        (''status'', dict_get state ''status'' (PStr ''PENDING'')),
        (''wave'', dict_get state ''wave'' PNone),
        (''appName'', dict_get state ''appName'' PNone),
        (''source'', dict_get state ''source'' PNone),
        (''target'', dict_get state ''target'' PNone),
        (''environment'', dict_get state ''environment'' PNone),
        (''updatedAt'', PStr now),
        (''executionDetails'', dict_get state ''executionDetails'' (PDict [])),
        (''correlationId'', dict_get state ''correlationId'' PNone)])"

definition get_migration_state :: "table \<Rightarrow> pyval \<Rightarrow> pydict option" where
  "get_migration_state tbl migration_id = tbl migration_id"

text \<open>The item \<open>update_item\<close> works on: the stored one, or a new one holding the key.\<close>

definition item_of :: "table \<Rightarrow> pyval \<Rightarrow> pydict" where
  "item_of tbl migration_id =
     (case tbl migration_id of None \<Rightarrow> [(''migrationId'', migration_id)] | Some it \<Rightarrow> it)"

text \<open>\<open>execution_details\<close> is \<open>None\<close> (the default) or a dict; \<open>if execution_details:\<close>
  holds for a non-empty dict only.\<close>

definition update_migration_status ::
  "table \<Rightarrow> string \<Rightarrow> pyval \<Rightarrow> string \<Rightarrow> pydict option \<Rightarrow> table" where
  "update_migration_status tbl now migration_id status execution_details =
     (let item0 = item_of tbl migration_id;
          item1 = AList.update ''updatedAt'' (PStr now)
                    (AList.update ''status'' (PStr status) item0);
          item2 = (case execution_details of
                     None \<Rightarrow> item1
                   | Some details \<Rightarrow>
                       if details \<noteq> []
                       then AList.update ''executionDetails'' (PDict details) item1
                       else item1)
      in tbl(migration_id \<mapsto> item2))"

text \<open>Reading one attribute of the stored record.\<close>

definition stored_attr :: "table \<Rightarrow> pyval \<Rightarrow> string \<Rightarrow> pyval option" where
  "stored_attr tbl migration_id attr =
     (case tbl migration_id of None \<Rightarrow> None | Some it \<Rightarrow> map_of it attr)"

text \<open>The stored \<open>executionDetails\<close> map as a key-value function (empty when the record or
  the attribute is missing or is not a map).\<close>

definition stored_details :: "table \<Rightarrow> pyval \<Rightarrow> string \<Rightarrow> pyval option" where
  "stored_details tbl migration_id =
     (case stored_attr tbl migration_id ''executionDetails'' of
        Some (PDict d) \<Rightarrow> map_of d
      | _ \<Rightarrow> Map.empty)"

section \<open>The world outside a handler\<close>

text \<open>
  What a handler changes: the table of migration records and the events accepted by the
  bus, each with its detail type, source and detail.
\<close>

record world =
  store :: table
  events :: "(string \<times> string \<times> pydict) list"

text \<open>The answer of an HTTP POST: a response with its status code and elapsed time, a
  \<open>requests.exceptions.RequestException\<close> (timeout, connection error), or another
  exception.\<close>

datatype http_outcome =
    Responded int pyval
  | RequestException string
  | PostRaised string

text \<open>
  What the collaborators answer during one invocation. None of them is part of the
  repository; each call either returns or raises.
  \<^item> \<open>now\<close>: \<open>datetime.utcnow().isoformat()\<close>;
  \<^item> \<open>uuid_hex n\<close>: the hex digits of the \<open>n\<close>-th uuid4 drawn;
  \<^item> \<open>store_ok\<close>: the table accepts the writes of this invocation (otherwise each
    write raises);
  \<^item> \<open>bus\<close>: \<open>put_events\<close> for a detail type and detail, giving the event id or raising
    (a reported failed entry raises too);
  \<^item> the MGN, EC2 and HTTP calls, and \<open>http_error_text\<close>, the text of the HTTPError that
    \<open>raise_for_status\<close> raises for a status code;
  \<^item> \<open>schema\<close>: the JSON schema check of the ingress handler, giving the path and
    message of a violation.
  Logging does not change any result and is left out.
\<close>

record env =
  now :: string
  uuid_hex :: "nat \<Rightarrow> string"
  store_ok :: bool
  bus :: "string \<Rightarrow> pydict \<Rightarrow> exn + string"
  mgn_source_servers :: "exn + pyval"
  mgn_discontinue :: "exn option"
  ec2_terminate :: "exn option"
  http_post :: http_outcome
  http_error_text :: "int \<Rightarrow> string"
  schema :: "pyval \<Rightarrow> (string \<times> string) option"

text \<open>\<open>base.update(other)\<close>.\<close>

definition py_update :: "pydict \<Rightarrow> pydict \<Rightarrow> pydict" where
  "py_update base other = fold (\<lambda>(k, v) d. AList.update k v d) other base"


definition IndexError :: exn where
  "IndexError = PyException ''IndexError'' []"

text \<open>\<open>x[0]\<close>.\<close>

fun py_first :: "pyval \<Rightarrow> exn + pyval" where
  "py_first (PList xs) = (case xs of [] \<Rightarrow> Inl IndexError | x # _ \<Rightarrow> Inr x)"
| "py_first (PStr s) = (case s of [] \<Rightarrow> Inl IndexError | c # _ \<Rightarrow> Inr (PStr [c]))"
| "py_first (PDict d) = Inl (PyException ''KeyError'' ''0'')"
| "py_first PNone = Inl TypeError"
| "py_first (PBool b) = Inl TypeError"
| "py_first (PInt i) = Inl TypeError"

fun is_class :: "err_class \<Rightarrow> exn \<Rightarrow> bool" where
  "is_class c (MigrationError c' code msg details) = (c' = c)"
| "is_class c (PyException cls txt) = False"

fun is_migration_error :: "exn \<Rightarrow> bool" where
  "is_migration_error (MigrationError c code msg details) = True"
| "is_migration_error (PyException cls txt) = False"

fun exn_code :: "exn \<Rightarrow> string" where
  "exn_code (MigrationError c code msg details) = code"
| "exn_code (PyException cls txt) = []"

definition ClientError :: exn where
  "ClientError = PyException ''ClientError'' []"

text \<open>A write of the state manager inside a handler.\<close>

definition state_update ::
  "env \<Rightarrow> world \<Rightarrow> pyval \<Rightarrow> string \<Rightarrow> pydict option \<Rightarrow> exn + world" where
  "state_update env w migration_id status execution_details =
     (if store_ok env
      then Inr (w\<lparr>store := update_migration_status (store w) (now env) migration_id status
                             execution_details\<rparr>)
      else Inl ClientError)"

section \<open>common/eventbridge_helper.py\<close>

definition publish_event ::
  "env \<Rightarrow> world \<Rightarrow> string \<Rightarrow> pydict \<Rightarrow> string \<Rightarrow> exn + (string \<times> world)" where
  "publish_event env w detail_type detail source =
     (case bus env detail_type detail of
        Inl e \<Rightarrow> Inl e
      | Inr event_id \<Rightarrow> Inr (event_id, w\<lparr>events := events w @ [(detail_type, source, detail)]\<rparr>))"

text \<open>\<open>if details: event_detail.update(details)\<close>.\<close>

definition with_details :: "pydict \<Rightarrow> pydict option \<Rightarrow> pydict" where
  "with_details event_detail details =
     (case details of
        None \<Rightarrow> event_detail
      | Some ds \<Rightarrow> if ds \<noteq> [] then py_update event_detail ds else event_detail)"

definition publish_success_event ::
  "env \<Rightarrow> world \<Rightarrow> pyval \<Rightarrow> pyval \<Rightarrow> pydict option \<Rightarrow> exn + (string \<times> world)" where
  "publish_success_event env w migration_id correlation_id details =
     publish_event env w ''MigrationSucceeded''
       (with_details
          [(''migrationId'', migration_id), (''correlationId'', correlation_id),
           (''status'', PStr ''SUCCESS''), (''timestamp'', PStr (now env))]
          details)
       ''migration.orchestration''"

definition publish_failure_event ::
  "env \<Rightarrow> world \<Rightarrow> pyval \<Rightarrow> pyval \<Rightarrow> string \<Rightarrow> string \<Rightarrow> pydict option
     \<Rightarrow> exn + (string \<times> world)" where
  "publish_failure_event env w migration_id correlation_id error_code error_message details =
     publish_event env w ''MigrationFailed''
       (with_details
          [(''migrationId'', migration_id), (''correlationId'', correlation_id),
           (''status'', PStr ''FAILED''), (''errorCode'', PStr error_code),
           (''errorMessage'', PStr error_message), (''timestamp'', PStr (now env))]
          details)
       ''migration.orchestration''"

definition publish_status_event ::
  "env \<Rightarrow> world \<Rightarrow> pyval \<Rightarrow> pyval \<Rightarrow> string \<Rightarrow> string \<Rightarrow> pydict option
     \<Rightarrow> exn + (string \<times> world)" where
  "publish_status_event env w migration_id correlation_id current_step status details =
     publish_event env w ''MigrationStatusUpdated''
       (with_details
          [(''migrationId'', migration_id), (''correlationId'', correlation_id),
           (''currentStep'', PStr current_step), (''status'', PStr status),
           (''timestamp'', PStr (now env))]
          details)
       ''migration.orchestration''"

text \<open>The failure branch shared by the phase executors: publish the failure event inside
  \<open>try: ... except: pass\<close>, so the world changes only when the bus takes the event.\<close>

definition try_publish_failure :: "env \<Rightarrow> world \<Rightarrow> pyval \<Rightarrow> pyval \<Rightarrow> exn \<Rightarrow> world" where
  "try_publish_failure env w migration_id correlation_id e =
     (case publish_failure_event env w migration_id correlation_id (exn_code e) (exn_str e) None of
        Inl _ \<Rightarrow> w
      | Inr (_, w') \<Rightarrow> w')"

section \<open>prepare_source.py\<close>









section \<open>verify_migration.py\<close>

text \<open>Every exception inside the \<open>try\<close> of \<open>check_mgn_replication_status\<close>, the
  "not found" VerificationError included, is caught by its \<open>except Exception\<close> and
  raised again as this VerificationError.\<close>

definition mgn_status_failed :: "exn \<Rightarrow> exn" where
  "mgn_status_failed e =
     raise_error VerificationError (''Failed to check MGN replication status: '' @ exn_str e)
       [(''service'', PStr ''mgn'')]"

definition replication_status_info :: "pyval \<Rightarrow> exn + pydict" where
  "replication_status_info response =
     (case py_get ''items'' PNone response of
        Inl e \<Rightarrow> Inl e
      | Inr items \<Rightarrow>
          if \<not> py_truthy items
          then Inl (raise_error VerificationError ''Source server not found in MGN'' [])
          else
            (case py_index response ''items'' of
               Inl e \<Rightarrow> Inl e
             | Inr items' \<Rightarrow>
                 (case py_first items' of
                    Inl e \<Rightarrow> Inl e
                  | Inr server \<Rightarrow>
                      (case py_get ''replicationStatus'' (PDict []) server of
                         Inl e \<Rightarrow> Inl e
                       | Inr replication_info \<Rightarrow>
                           (case py_get ''status'' PNone replication_info of
                              Inl e \<Rightarrow> Inl e
                            | Inr st \<Rightarrow>
                                (case py_get ''replicationLagSec'' (PInt 0) replication_info of
                                   Inl e \<Rightarrow> Inl e
                                 | Inr lag \<Rightarrow>
                                     (case py_get ''lastSeenByService'' (PStr [])
                                             replication_info of
                                        Inl e \<Rightarrow> Inl e
                                      | Inr seen \<Rightarrow>
                                          Inr [(''replicationStatus'', st),
                                               (''replicationLag'', lag),
                                               (''lastSeenByService'', seen)])))))))"

definition check_mgn_replication_status :: "env \<Rightarrow> pyval \<Rightarrow> exn + pydict" where
  "check_mgn_replication_status env source_vm_id =
     (case mgn_source_servers env of
        Inl e \<Rightarrow> Inl (mgn_status_failed e)
      | Inr response \<Rightarrow>
          (case replication_status_info response of
             Inl e \<Rightarrow> Inl (mgn_status_failed e)
           | Inr status_info \<Rightarrow> Inr status_info))"

text \<open>\<open>replication_lag > threshold\<close>: an int (a bool counts as 0 or 1) compares, any
  other value raises TypeError.\<close>

fun validate_replication_lag :: "pyval \<Rightarrow> int \<Rightarrow> exn + bool" where
  "validate_replication_lag (PInt lag) threshold = Inr (\<not> lag > threshold)"
| "validate_replication_lag (PBool b) threshold = Inr (\<not> (if b then 1 else 0) > threshold)"
| "validate_replication_lag PNone threshold = Inl TypeError"
| "validate_replication_lag (PStr s) threshold = Inl TypeError"
| "validate_replication_lag (PList xs) threshold = Inl TypeError"
| "validate_replication_lag (PDict d) threshold = Inl TypeError"

definition check_application_health :: "env \<Rightarrow> pydict \<Rightarrow> pydict" where
  "check_application_health env payload =
     [(''appName'', dict_get payload ''appName'' PNone),
      (''healthStatus'', PStr ''HEALTHY''),
      (''checkedAt'', PStr (now env)),
      (''checks'', PDict [(''connectivity'', PBool True), (''diskSpace'', PBool True),
                          (''memory'', PBool True), (''cpu'', PBool True)])]"

definition lag_exceeded :: "pyval \<Rightarrow> exn" where
  "lag_exceeded replication_lag =
     raise_error VerificationError ''Replication lag exceeds acceptable threshold''
       [(''lag'', replication_lag)]"

definition verify_migration_steps ::
  "env \<Rightarrow> world \<Rightarrow> pydict \<Rightarrow> pyval \<Rightarrow> pyval \<Rightarrow> (exn + pydict) \<times> world" where
  "verify_migration_steps env w detail correlation_id migration_id =
     (case check_mgn_replication_status env (dict_get detail ''sourceVmId'' (PStr [])) of
        Inl e \<Rightarrow> (Inl e, w)
      | Inr replication_status \<Rightarrow>
          (let replication_lag = dict_get replication_status ''replicationLag'' (PInt 0) in
           case validate_replication_lag replication_lag 300 of
             Inl e \<Rightarrow> (Inl e, w)
           | Inr is_replication_acceptable \<Rightarrow>
               if \<not> is_replication_acceptable
               then (Inl (lag_exceeded replication_lag), w)
               else
                 (let health_status = check_application_health env detail;
                      results = [(''replication'', PDict replication_status),
                                 (''health'', PDict health_status)]
                  in case state_update env w migration_id ''VERIFIED'' (Some results) of
                       Inl e \<Rightarrow> (Inl e, w)
                     | Inr w1 \<Rightarrow>
                         (case publish_status_event env w1 migration_id correlation_id
                                 ''verify_migration'' ''SUCCESS'' (Some results) of
                            Inl e \<Rightarrow> (Inl e, w1)
                          | Inr (event_id, w2) \<Rightarrow>
                              (Inr [(''statusCode'', PInt 200),
                                    (''body'', PDict [(''migrationId'', migration_id),
                                                      (''status'', PStr ''VERIFIED''),
                                                      (''replication'', PDict replication_status),
                                                      (''health'', PDict health_status)])],
                               w2)))))"

definition verify_migration_unexpected :: pydict where
  "verify_migration_unexpected =
     [(''statusCode'', PInt 500),
      (''body'', PDict [(''error'', PStr ''Migration verification failed'')])]"

text \<open>\<open>lambda_handler\<close> of verify_migration.py.\<close>

definition verify_migration_lambda_handler ::
  "env \<Rightarrow> world \<Rightarrow> pydict \<Rightarrow> pydict \<times> world" where
  "verify_migration_lambda_handler env w event =
     (case extract_correlation_id (uuid_hex env 0) (PDict event) of
        Inl e \<Rightarrow> (verify_migration_unexpected, w)
      | Inr correlation_id \<Rightarrow>
          (case dict_get event ''detail'' (PDict []) of
             PDict detail \<Rightarrow>
               (case verify_migration_steps env w detail correlation_id
                       (dict_get detail ''migrationId'' PNone) of
                  (Inr response, w') \<Rightarrow> (response, w')
                | (Inl e, w') \<Rightarrow>
                    if is_class VerificationError e
                    then ([(''statusCode'', PInt 500), (''body'', PDict (to_dict e))],
                          try_publish_failure env w'
                            (dict_get detail ''migrationId'' (PStr ''unknown'')) correlation_id e)
                    else (verify_migration_unexpected, w'))
           | _ \<Rightarrow> (verify_migration_unexpected, w)))"

text \<open>The detail of the failure event for an exceeded lag, as \<open>publish_failure_event\<close>
  is called by the handler's \<open>except VerificationError\<close>: the error's details, with the
  lag, are not passed on.\<close>

definition lag_failure_detail :: "env \<Rightarrow> pyval \<Rightarrow> pyval \<Rightarrow> pydict" where
  "lag_failure_detail env migration_id correlation_id =
     [(''migrationId'', migration_id), (''correlationId'', correlation_id),
      (''status'', PStr ''FAILED''), (''errorCode'', PStr ''VERIFICATION_ERROR''),
      (''errorMessage'', PStr ''Replication lag exceeds acceptable threshold''),
      (''timestamp'', PStr (now env))]"

section \<open>rollback_handler.py\<close>

definition stop_mgn_replication :: "env \<Rightarrow> pyval \<Rightarrow> exn + pydict" where
  "stop_mgn_replication env source_vm_id =
     (case mgn_discontinue env of
        Some e \<Rightarrow>
          Inl (raise_error RollbackError (''Failed to stop MGN replication: '' @ exn_str e)
                 [(''service'', PStr ''mgn'')])
      | None \<Rightarrow>
          Inr [(''status'', PStr ''REPLICATION_STOPPED''), (''sourceVmId'', source_vm_id)])"

definition terminate_target_instance :: "env \<Rightarrow> pydict \<Rightarrow> exn + pydict" where
  "terminate_target_instance env payload =
     (let instance_id = dict_get payload ''targetInstanceId'' PNone in
      if \<not> py_truthy instance_id
      then Inr [(''status'', PStr ''SKIPPED''), (''reason'', PStr ''No target instance ID'')]
      else
        (case ec2_terminate env of
           Some e \<Rightarrow>
             Inl (raise_error RollbackError
                    (''Failed to terminate target instance: '' @ exn_str e)
                    [(''instanceId'', instance_id)])
         | None \<Rightarrow>
             Inr [(''status'', PStr ''INSTANCE_TERMINATED''), (''instanceId'', instance_id)]))"

definition restore_source_state :: "env \<Rightarrow> pydict \<Rightarrow> exn + pydict" where
  "restore_source_state env payload =
     (let source_vm_id = dict_get payload ''sourceVmId'' PNone in
      if \<not> py_truthy source_vm_id
      then Inl (raise_error RollbackError
                  ''Source VM ID not provided for state restoration'' [])
      else Inr [(''sourceVmId'', source_vm_id), (''status'', PStr ''STATE_RESTORED''),
                (''restoredAt'', PStr (now env))])"

definition notify_stakeholders :: "env \<Rightarrow> pyval \<Rightarrow> pydict \<Rightarrow> pydict" where
  "notify_stakeholders env migration_id error_details =
     [(''migrationId'', migration_id),
      (''notificationType'', PStr ''ROLLBACK_NOTIFICATION''),
      (''status'', PStr ''SENT''),
      (''sentAt'', PStr (now env)),
      (''errorDetails'', PDict error_details)]"

text \<open>What each \<open>except Exception as e\<close> of the handler records for its step.\<close>

definition step_failed :: "exn \<Rightarrow> pydict" where
  "step_failed e = [(''status'', PStr ''FAILED''), (''error'', PStr (exn_str e))]"

definition step_result :: "exn + pydict \<Rightarrow> pyval" where
  "step_result r = (case r of Inl e \<Rightarrow> PDict (step_failed e) | Inr res \<Rightarrow> PDict res)"

text \<open>The four wrapped compensations, in the order of the handler, filling
  \<open>rollback_results\<close>. The first records nothing when the event has no \<open>sourceVmId\<close>.\<close>

definition rollback_results :: "env \<Rightarrow> pydict \<Rightarrow> pyval \<Rightarrow> pydict" where
  "rollback_results env detail migration_id =
     (let source_vm_id = dict_get detail ''sourceVmId'' PNone;
          r1 = (if py_truthy source_vm_id
                then AList.update ''mgnReplication''
                       (step_result (stop_mgn_replication env source_vm_id)) []
                else []);
          r2 = AList.update ''targetInstance''
                 (step_result (terminate_target_instance env detail)) r1;
          r3 = AList.update ''sourceState''
                 (step_result (restore_source_state env detail)) r2;
          r4 = AList.update ''notification''
                 (PDict (notify_stakeholders env migration_id
                           [(''errorCode'', dict_get detail ''errorCode'' PNone),
                            (''errorMessage'', dict_get detail ''errorMessage'' PNone)])) r3
      in r4)"

definition rollback_unexpected :: pydict where
  "rollback_unexpected =
     [(''statusCode'', PInt 500),
      (''body'', PDict [(''error'', PStr ''Rollback process failed'')])]"

text \<open>The two \<open>except\<close> clauses of the handler.\<close>

definition rollback_except :: "exn \<Rightarrow> pydict" where
  "rollback_except e =
     (if is_class RollbackError e
      then [(''statusCode'', PInt 500), (''body'', PDict (to_dict e))]
      else rollback_unexpected)"

text \<open>\<open>lambda_handler\<close> of rollback_handler.py.\<close>

definition rollback_lambda_handler :: "env \<Rightarrow> world \<Rightarrow> pydict \<Rightarrow> pydict \<times> world" where
  "rollback_lambda_handler env w event =
     (case extract_correlation_id (uuid_hex env 0) (PDict event) of
        Inl e \<Rightarrow> (rollback_except e, w)
      | Inr correlation_id \<Rightarrow>
          (case dict_get event ''detail'' (PDict []) of
             PDict detail \<Rightarrow>
               (let migration_id = dict_get detail ''migrationId'' PNone;
                    results = rollback_results env detail migration_id
                in case state_update env w migration_id ''ROLLED_BACK'' (Some results) of
                     Inl e \<Rightarrow> (rollback_except e, w)
                   | Inr w1 \<Rightarrow>
                       (case publish_event env w1 ''MigrationRolledBack''
                               [(''migrationId'', migration_id),
                                (''correlationId'', correlation_id),
                                (''status'', PStr ''ROLLED_BACK''),
                                (''rollbackDetails'', PDict results),
                                (''timestamp'', PStr (now env))]
                               ''migration.orchestration'' of
                          Inl e \<Rightarrow> (rollback_except e, w1)
                        | Inr (event_id, w2) \<Rightarrow>
                            ([(''statusCode'', PInt 200),
                              (''body'', PDict [(''migrationId'', migration_id),
                                                (''status'', PStr ''ROLLED_BACK''),
                                                (''rollbackDetails'', PDict results)])],
                             w2)))
           | _ \<Rightarrow> (rollback_except AttributeError, w)))"

section \<open>callback_handler.py\<close>

definition callback_error :: "string \<Rightarrow> pyval \<Rightarrow> exn" where
  "callback_error txt callback_url =
     MigrationError BaseMigrationError ''CALLBACK_ERROR'' (''Callback request failed: '' @ txt)
       [(''url'', callback_url)]"

text \<open>\<open>send_callback\<close>: \<open>raise_for_status\<close> raises an HTTPError, which is a
  RequestException, for the status codes 400 to 599 and for no other. Only a
  RequestException is turned into the MigrationError.\<close>

definition send_callback :: "env \<Rightarrow> pyval \<Rightarrow> pydict \<Rightarrow> exn + pydict" where
  "send_callback env callback_url payload =
     (case http_post env of
        RequestException txt \<Rightarrow> Inl (callback_error txt callback_url)
      | PostRaised txt \<Rightarrow> Inl (PyException ''Exception'' txt)
      | Responded code elapsed \<Rightarrow>
          if 400 \<le> code \<and> code < 600
          then Inl (callback_error (http_error_text env code) callback_url)
          else Inr [(''status'', PStr ''SUCCESS''), (''statusCode'', PInt code),
                    (''responseTime'', elapsed)])"

text \<open>\<open>format_callback_payload\<close> extracts the correlation identifier on its own, drawing
  the next uuid when the event carries none.\<close>

definition format_callback_payload :: "env \<Rightarrow> pydict \<Rightarrow> exn + pydict" where
  "format_callback_payload env event =
     (case dict_get event ''detail'' (PDict []) of
        PDict detail \<Rightarrow>
          (case extract_correlation_id (uuid_hex env 1) (PDict event) of
             Inl e \<Rightarrow> Inl e
           | Inr correlation_id \<Rightarrow>
               (let p0 = [(''migrationId'', dict_get detail ''migrationId'' PNone),
                          (''status'', dict_get detail ''status'' PNone),
                          (''appName'', dict_get detail ''appName'' PNone),
                          (''environment'', dict_get detail ''environment'' PNone),
                          (''wave'', dict_get detail ''wave'' PNone),
                          (''timestamp'', PStr (now env)),
                          (''correlationId'', correlation_id)];
                    p1 = (if map_of detail ''errorCode'' \<noteq> None
                          then AList.update ''error''
                                 (PDict [(''code'', dict_get detail ''errorCode'' PNone),
                                         (''message'', dict_get detail ''errorMessage'' PNone)]) p0
                          else p0);
                    p2 = (if dict_get detail ''status'' PNone = PStr ''SUCCESS''
                          then AList.update ''successDetails''
                                 (PDict [(''completedAt'', dict_get detail ''completedAt'' PNone),
                                         (''targetVmName'', dict_get detail ''targetVmName'' PNone)])
                                 p1
                          else p1)
                in Inr p2))
      | _ \<Rightarrow> Inl AttributeError)"

text \<open>The two \<open>except\<close> clauses of the handler. Both read \<open>detail.get("migrationId",
  "unknown")\<close>, so when \<open>detail\<close> is not a dict the clause itself raises and the handler
  with it.\<close>

definition callback_except :: "pyval \<Rightarrow> exn \<Rightarrow> exn + pydict" where
  "callback_except detail e =
     (case py_get ''migrationId'' (PStr ''unknown'') detail of
        Inl e' \<Rightarrow> Inl e'
      | Inr migration_id \<Rightarrow>
          Inr [(''statusCode'', PInt 200),
               (''body'', PDict [(''migrationId'', migration_id),
                                 (''status'', PStr ''CALLBACK_FAILED''),
                                 (''error'', if is_migration_error e then PDict (to_dict e)
                                             else PStr (exn_str e))])])"

text \<open>\<open>lambda_handler\<close> of callback_handler.py. It writes no record and publishes no
  event; \<open>Inl\<close> is the handler raising.\<close>

definition callback_lambda_handler :: "env \<Rightarrow> pydict \<Rightarrow> exn + pydict" where
  "callback_lambda_handler env event =
     (let detail = dict_get event ''detail'' (PDict []) in
      case extract_correlation_id (uuid_hex env 0) (PDict event) of
        Inl e \<Rightarrow> callback_except detail e
      | Inr correlation_id \<Rightarrow>
          (case py_get ''migrationId'' PNone detail of
             Inl e \<Rightarrow> callback_except detail e
           | Inr migration_id \<Rightarrow>
               (case py_get ''callbackUrl'' PNone detail of
                  Inl e \<Rightarrow> callback_except detail e
                | Inr callback_url \<Rightarrow>
                    if \<not> py_truthy callback_url
                    then Inr [(''statusCode'', PInt 200),
                              (''body'', PDict [(''migrationId'', migration_id),
                                                (''status'', PStr ''SKIPPED''),
                                                (''reason'', PStr ''No callback URL'')])]
                    else
                      (case format_callback_payload env event of
                         Inl e \<Rightarrow> callback_except detail e
                       | Inr callback_payload \<Rightarrow>
                           (case send_callback env callback_url callback_payload of
                              Inl e \<Rightarrow> callback_except detail e
                            | Inr callback_result \<Rightarrow>
                                Inr [(''statusCode'', PInt 200),
                                     (''body'', PDict [(''migrationId'', migration_id),
                                                       (''status'', PStr ''CALLBACK_SENT''),
                                                       (''details'', PDict callback_result)])])))))"

text \<open>The delivery of the callback is attempted and fails: the event reaches
  \<open>send_callback\<close>, and the POST times out (or fails otherwise with a RequestException)
  or is answered with a 4xx or 5xx status.\<close>

definition delivery_fails :: "env \<Rightarrow> bool" where
  "delivery_fails env =
     (case http_post env of
        RequestException txt \<Rightarrow> True
      | Responded code elapsed \<Rightarrow> 400 \<le> code \<and> code < 600
      | PostRaised txt \<Rightarrow> False)"

section \<open>ingress_handler.py\<close>












section \<open>Concrete records and events\<close>

text \<open>A record that went through validation, with the validation phase's result stored.\<close>

definition validated_table :: table where
  "validated_table =
     Map.empty(PStr ''mig-1'' \<mapsto>
       [(''migrationId'', PStr ''mig-1''), (''status'', PStr ''VALIDATED''),
        (''updatedAt'', PStr ''2024-01-01T00:00:00''),
        (''executionDetails'', PDict [(''validation'', PStr ''ok'')])])"

text \<open>Collaborators that all answer: the store takes writes, the bus takes events, MGN and
  EC2 calls return, the callback target answers 200.\<close>

definition quiet_env :: env where
  "quiet_env =
     \<lparr> now = ''2024-01-02T00:00:00'',
       uuid_hex = (\<lambda>n. ''0123456789abcdef0123456789abcdef''),
       store_ok = True,
       bus = (\<lambda>detail_type detail. Inr ''evt-1''),
       mgn_source_servers = Inr (PDict [(''items'', PList [])]),
       mgn_discontinue = None,
       ec2_terminate = None,
       http_post = Responded 200 (PInt 0),
       http_error_text = (\<lambda>code. ''HTTP error''),
       schema = (\<lambda>v. None) \<rparr>"


definition validated_world :: world where
  "validated_world = \<lparr> store = validated_table, events = [] \<rparr>"


text \<open>A failure event as \<open>publish_failure_event\<close> builds it, for a migration that only
  went through validation: no job, no target instance, no source VM id, no snapshot.\<close>

definition failure_event :: pydict where
  "failure_event =
     [(''detail'', PDict [(''migrationId'', PStr ''mig-1''),
                          (''correlationId'', PStr ''mig-c0ffee00''),
                          (''status'', PStr ''FAILED''),
                          (''errorCode'', PStr ''SOURCE_PREPARATION_ERROR''),
                          (''errorMessage'', PStr ''Source VM is not ready for migration''),
                          (''timestamp'', PStr ''2024-01-01T12:00:00''),
                          (''appName'', PStr ''billing-app'')])]"

text \<open>A record in MIGRATION_IN_PROGRESS and the event that triggers its verification.\<close>

definition in_progress_world :: world where
  "in_progress_world =
     \<lparr> store = Map.empty(PStr ''mig-1'' \<mapsto>
         [(''migrationId'', PStr ''mig-1''), (''status'', PStr ''MIGRATION_IN_PROGRESS''),
          (''updatedAt'', PStr ''2024-01-01T00:00:00''),
          (''executionDetails'', PDict [(''mgn'', PStr ''launched'')])]),
       events = [] \<rparr>"

definition verify_event :: pydict where
  "verify_event =
     [(''detail'', PDict [(''migrationId'', PStr ''mig-1''),
                          (''correlation_id'', PStr ''mig-c0ffee00''),
                          (''sourceVmId'', PStr ''s-1''), (''appName'', PStr ''billing-app'')])]"

text \<open>The collaborators of \<open>quiet_env\<close>, with MGN reporting the given replication lag.\<close>

definition lag_env :: "int \<Rightarrow> env" where
  "lag_env lag =
     quiet_env\<lparr>mgn_source_servers :=
       Inr (PDict [(''items'',
              PList [PDict [(''replicationStatus'',
                       PDict [(''status'', PStr ''CONTINUOUS''),
                              (''replicationLagSec'', PInt lag)])]])])\<rparr>"

text \<open>The event that triggers the callback for a completed migration, and collaborators
  whose callback target is unreachable.\<close>

definition completed_event :: pydict where
  "completed_event =
     [(''detail'', PDict [(''migrationId'', PStr ''mig-1''),
                          (''correlation_id'', PStr ''mig-c0ffee00''),
                          (''status'', PStr ''SUCCESS''),
                          (''callbackUrl'', PStr ''https://example.invalid/hook'')])]"

definition unreachable_env :: env where
  "unreachable_env = quiet_env\<lparr>http_post := RequestException ''Connection timed out''\<rparr>"





definition deaf_bus_env :: "int \<Rightarrow> env" where
  "deaf_bus_env lag =
     (lag_env lag)\<lparr>bus := (\<lambda>detail_type detail. Inl (PyException ''Exception'' ''bus down''))\<rparr>"

section \<open>Properties of the record store\<close>

lemma stored_attr_update:
  "stored_attr (update_migration_status tbl ts mid status ed) mid attr =
     (if attr = ''executionDetails'' \<and> (\<exists>d. ed = Some d \<and> d \<noteq> []) then Some (PDict (the ed))
      else if attr = ''updatedAt'' then Some (PStr ts)
      else if attr = ''status'' then Some (PStr status)
      else map_of (item_of tbl mid) attr)"
  by (auto simp: stored_attr_def update_migration_status_def Let_def update_conv'
           split: option.splits)

lemma update_other_record:
  "mid' \<noteq> mid \<Longrightarrow> update_migration_status tbl ts mid status ed mid' = tbl mid'"
  by (simp add: update_migration_status_def Let_def)

lemma item_of_details:
  "map_of (item_of tbl mid) ''executionDetails'' = stored_attr tbl mid ''executionDetails''"
  by (simp add: item_of_def stored_attr_def split: option.splits)

text \<open>
  Claim C1, as the code has it. \<open>update_migration_status\<close> called with a non-empty
  execution-details dict SETs the attribute \<open>executionDetails\<close> to that dict: the stored
  map after the call is the passed dict alone, whatever was stored before; \<open>status\<close> and
  \<open>updatedAt\<close> are rewritten.
\<close>

theorem update_migration_status_replaces_details:
  assumes "details \<noteq> []"
  shows "stored_attr (update_migration_status tbl ts mid status (Some details)) mid
           ''executionDetails'' = Some (PDict details)
       \<and> stored_details (update_migration_status tbl ts mid status (Some details)) mid
           = map_of details
       \<and> stored_attr (update_migration_status tbl ts mid status (Some details)) mid ''status''
           = Some (PStr status)
       \<and> stored_attr (update_migration_status tbl ts mid status (Some details)) mid
           ''updatedAt'' = Some (PStr ts)"
  using assms by (simp add: stored_attr_update stored_details_def)

theorem update_migration_status_replaces_details_witness:
  "stored_details
     (update_migration_status validated_table ''t1'' (PStr ''mig-1'') ''SOURCE_PREPARED''
        (Some [(''sourcePreparation'', PStr ''done'')]))
     (PStr ''mig-1'')
   = map_of [(''sourcePreparation'', PStr ''done'')]"
  using update_migration_status_replaces_details
          [of "[(''sourcePreparation'', PStr ''done'')]" validated_table "''t1''"
              "PStr ''mig-1''" "''SOURCE_PREPARED''"]
  by simp

text \<open>
  Claim C1 as stated (the stored map after the call is the stored map merged with the
  delta) fails: after the prepare phase's update of a validated record, the entry the
  validation phase stored is gone, while the merge would still hold it.
\<close>

theorem update_migration_status_merge_counterexample:
  "stored_details
     (update_migration_status validated_table ''t1'' (PStr ''mig-1'') ''SOURCE_PREPARED''
        (Some [(''sourcePreparation'', PStr ''done'')]))
     (PStr ''mig-1'') ''validation'' = None
   \<and> (stored_details validated_table (PStr ''mig-1'')
        ++ map_of [(''sourcePreparation'', PStr ''done'')]) ''validation'' = Some (PStr ''ok'')
   \<and> stored_details
        (update_migration_status validated_table ''t1'' (PStr ''mig-1'') ''SOURCE_PREPARED''
           (Some [(''sourcePreparation'', PStr ''done'')]))
        (PStr ''mig-1'')
      \<noteq> stored_details validated_table (PStr ''mig-1'')
          ++ map_of [(''sourcePreparation'', PStr ''done'')]"
proof -
  let ?after = "stored_details
     (update_migration_status validated_table ''t1'' (PStr ''mig-1'') ''SOURCE_PREPARED''
        (Some [(''sourcePreparation'', PStr ''done'')])) (PStr ''mig-1'')"
  let ?merged = "stored_details validated_table (PStr ''mig-1'')
        ++ map_of [(''sourcePreparation'', PStr ''done'')]"
  have a: "?after ''validation'' = None"
    by (simp add: stored_details_def stored_attr_def update_migration_status_def item_of_def
          Let_def validated_table_def)
  have m: "?merged ''validation'' = Some (PStr ''ok'')"
    by (simp add: stored_details_def stored_attr_def validated_table_def map_add_def)
  from a m have "?after \<noteq> ?merged" by (metis option.distinct(1))
  with a m show ?thesis by blast
qed

text \<open>
  Claim C9. With no execution details (\<open>None\<close>, or the empty dict, which is falsy) the
  call writes \<open>status\<close> and \<open>updatedAt\<close> only: the stored \<open>executionDetails\<close> and every
  other attribute of the record are what they were, and no other record changes.
\<close>

theorem update_migration_status_without_details:
  assumes "execution_details = None \<or> execution_details = Some []"
  shows "stored_attr (update_migration_status tbl ts mid status execution_details) mid ''status''
           = Some (PStr status)
    \<and> stored_attr (update_migration_status tbl ts mid status execution_details) mid
           ''updatedAt'' = Some (PStr ts)
    \<and> stored_attr (update_migration_status tbl ts mid status execution_details) mid
           ''executionDetails'' = stored_attr tbl mid ''executionDetails''
    \<and> stored_details (update_migration_status tbl ts mid status execution_details) mid
           = stored_details tbl mid
    \<and> (\<forall>attr. attr \<noteq> ''status'' \<longrightarrow> attr \<noteq> ''updatedAt'' \<longrightarrow>
          stored_attr (update_migration_status tbl ts mid status execution_details) mid attr
            = map_of (item_of tbl mid) attr)
    \<and> (\<forall>other. other \<noteq> mid \<longrightarrow>
          update_migration_status tbl ts mid status execution_details other = tbl other)"
  using assms
  by (auto simp: stored_attr_update stored_details_def item_of_details update_other_record)

theorem update_migration_status_without_details_witness:
  "stored_attr (update_migration_status validated_table ''t1'' (PStr ''mig-1'') ''VERIFIED'' None)
     (PStr ''mig-1'') ''status'' = Some (PStr ''VERIFIED'')
   \<and> stored_attr (update_migration_status validated_table ''t1'' (PStr ''mig-1'') ''VERIFIED'' None)
     (PStr ''mig-1'') ''executionDetails'' = Some (PDict [(''validation'', PStr ''ok'')])
   \<and> stored_attr (update_migration_status validated_table ''t1'' (PStr ''mig-1'') ''VERIFIED'' None)
     (PStr ''mig-1'') ''migrationId'' = Some (PStr ''mig-1'')
   \<and> update_migration_status validated_table ''t1'' (PStr ''mig-1'') ''VERIFIED'' None
     (PStr ''mig-2'') = None"
  using update_migration_status_without_details
          [of None validated_table "''t1''" "PStr ''mig-1''" "''VERIFIED''"]
  by (simp add: stored_attr_def item_of_def validated_table_def)

text \<open>
  Claim C10. \<open>save_migration_state\<close> replaces the record of the migration by an item
  with exactly the ten fixed keys, in this order, whatever other keys the state dict has.
  \<open>migrationId\<close> is the argument and \<open>updatedAt\<close> the current time; \<open>status\<close> is the
  state's or \<open>PENDING\<close> when the state has none; \<open>executionDetails\<close> is the state's or
  the empty map when the state has none; \<open>wave\<close>, \<open>appName\<close>, \<open>source\<close>, \<open>target\<close>,
  \<open>environment\<close> and \<open>correlationId\<close> are the state's or \<open>None\<close>. Every other key of the
  state is dropped, and no other record changes.
\<close>

theorem save_migration_state_fixed_fields:
  "\<exists>item. save_migration_state tbl ts mid state mid = Some item
     \<and> map fst item = [''migrationId'', ''status'', ''wave'', ''appName'', ''source'', ''target'',
                        ''environment'', ''updatedAt'', ''executionDetails'', ''correlationId'']
     \<and> map_of item ''migrationId'' = Some mid
     \<and> map_of item ''status''
         = Some (case map_of state ''status'' of None \<Rightarrow> PStr ''PENDING'' | Some v \<Rightarrow> v)
     \<and> map_of item ''wave''
         = Some (case map_of state ''wave'' of None \<Rightarrow> PNone | Some v \<Rightarrow> v)
     \<and> map_of item ''appName''
         = Some (case map_of state ''appName'' of None \<Rightarrow> PNone | Some v \<Rightarrow> v)
     \<and> map_of item ''source''
         = Some (case map_of state ''source'' of None \<Rightarrow> PNone | Some v \<Rightarrow> v)
     \<and> map_of item ''target''
         = Some (case map_of state ''target'' of None \<Rightarrow> PNone | Some v \<Rightarrow> v)
     \<and> map_of item ''environment''
         = Some (case map_of state ''environment'' of None \<Rightarrow> PNone | Some v \<Rightarrow> v)
     \<and> map_of item ''updatedAt'' = Some (PStr ts)
     \<and> map_of item ''executionDetails''
         = Some (case map_of state ''executionDetails'' of None \<Rightarrow> PDict [] | Some v \<Rightarrow> v)
     \<and> map_of item ''correlationId''
         = Some (case map_of state ''correlationId'' of None \<Rightarrow> PNone | Some v \<Rightarrow> v)
     \<and> (\<forall>k. k \<notin> set [''migrationId'', ''status'', ''wave'', ''appName'', ''source'', ''target'',
                        ''environment'', ''updatedAt'', ''executionDetails'', ''correlationId'']
            \<longrightarrow> map_of item k = None)
     \<and> (\<forall>other. other \<noteq> mid \<longrightarrow> save_migration_state tbl ts mid state other = tbl other)"
  by (simp add: save_migration_state_def dict_get_def)

theorem save_migration_state_fixed_fields_witness:
  "\<exists>item. save_migration_state validated_table ''t0'' (PStr ''mig-2'')
             [(''sourceVmId'', PStr ''vm-1''), (''steps'', PList []),
              (''callbackUrl'', PStr ''http://x''), (''wave'', PStr ''w1''),
              (''appName'', PStr ''billing-app'')]
             (PStr ''mig-2'') = Some item
     \<and> map_of item ''status'' = Some (PStr ''PENDING'')
     \<and> map_of item ''wave'' = Some (PStr ''w1'')
     \<and> map_of item ''appName'' = Some (PStr ''billing-app'')
     \<and> map_of item ''source'' = Some PNone
     \<and> map_of item ''executionDetails'' = Some (PDict [])
     \<and> map_of item ''sourceVmId'' = None
     \<and> map_of item ''steps'' = None
     \<and> map_of item ''callbackUrl'' = None
     \<and> save_migration_state validated_table ''t0'' (PStr ''mig-2'')
             [(''sourceVmId'', PStr ''vm-1''), (''steps'', PList []),
              (''callbackUrl'', PStr ''http://x''), (''wave'', PStr ''w1''),
              (''appName'', PStr ''billing-app'')]
             (PStr ''mig-1'') = validated_table (PStr ''mig-1'')"
  using save_migration_state_fixed_fields
          [of validated_table "''t0''" "PStr ''mig-2''"
              "[(''sourceVmId'', PStr ''vm-1''), (''steps'', PList []),
                (''callbackUrl'', PStr ''http://x''), (''wave'', PStr ''w1''),
                (''appName'', PStr ''billing-app'')]"]
  apply (elim exE conjE)
  apply (simp (no_asm_use))
  apply (simp)
  done

section \<open>Properties of the correlation context\<close>

text \<open>
  Claim C6, for the events the handlers are written for. Take an event dict with no
  correlation identifier at any of the three places, whose \<open>detail\<close> and \<open>headers\<close>, when
  present, are dicts. \<open>extract_correlation_id\<close> returns the generated identifier.
  \<open>inject_correlation_id\<close> returns the event with its \<open>detail\<close> (the empty dict when
  the event had none) holding the identifier under \<open>correlation_id\<close>, and nothing else
  changed. \<open>extract_correlation_id\<close> on that event returns the same identifier
  (whatever uuid it would draw).
\<close>

theorem correlation_round_trip:
  assumes "no_correlation_id ev" and "nested_dicts ev"
  shows "\<exists>ev'. extract_correlation_id u (PDict ev) = Inr (PStr (generate_correlation_id u))
      \<and> inject_correlation_id (PDict ev) (PStr (generate_correlation_id u)) = Inr (PDict ev')
      \<and> map_of ev' ''detail'' =
            Some (PDict (AList.update ''correlation_id'' (PStr (generate_correlation_id u))
                           (case map_of ev ''detail'' of Some (PDict d) \<Rightarrow> d | _ \<Rightarrow> [])))
      \<and> (\<forall>k. k \<noteq> ''detail'' \<longrightarrow> map_of ev' k = map_of ev k)
      \<and> extract_correlation_id u' (PDict ev') = Inr (PStr (generate_correlation_id u))"
  using assms
  by (auto simp: no_correlation_id_def nested_dicts_def extract_correlation_id_def
        inject_correlation_id_def detail_has_correlation_def header_correlation_def
        dict_get_def update_conv'
        split: option.splits pyval.splits)

theorem correlation_round_trip_witness:
  "no_correlation_id [(''detail'', PDict [(''migrationId'', PStr ''mig-1'')])]
   \<and> nested_dicts [(''detail'', PDict [(''migrationId'', PStr ''mig-1'')])]
   \<and> (\<exists>ev'. extract_correlation_id ''0123456789abcdef''
               (PDict [(''detail'', PDict [(''migrationId'', PStr ''mig-1'')])])
             = Inr (PStr ''mig-01234567'')
          \<and> inject_correlation_id
               (PDict [(''detail'', PDict [(''migrationId'', PStr ''mig-1'')])])
               (PStr ''mig-01234567'') = Inr (PDict ev')
          \<and> map_of ev' ''detail''
               = Some (PDict [(''migrationId'', PStr ''mig-1''),
                              (''correlation_id'', PStr ''mig-01234567'')])
          \<and> extract_correlation_id ''fedcba9876543210'' (PDict ev')
               = Inr (PStr ''mig-01234567''))"
proof -
  have h1: "no_correlation_id [(''detail'', PDict [(''migrationId'', PStr ''mig-1'')])]"
    by (simp add: no_correlation_id_def)
  have h2: "nested_dicts [(''detail'', PDict [(''migrationId'', PStr ''mig-1'')])]"
    by (simp add: nested_dicts_def)
  have g: "generate_correlation_id ''0123456789abcdef'' = ''mig-01234567''"
    by (simp add: generate_correlation_id_def)
  from correlation_round_trip [OF h1 h2, of "''0123456789abcdef''" "''fedcba9876543210''"]
  obtain ev' where
    "extract_correlation_id ''0123456789abcdef''
       (PDict [(''detail'', PDict [(''migrationId'', PStr ''mig-1'')])])
       = Inr (PStr ''mig-01234567'')"
    "inject_correlation_id (PDict [(''detail'', PDict [(''migrationId'', PStr ''mig-1'')])])
       (PStr ''mig-01234567'') = Inr (PDict ev')"
    "map_of ev' ''detail''
       = Some (PDict [(''migrationId'', PStr ''mig-1''),
                      (''correlation_id'', PStr ''mig-01234567'')])"
    "extract_correlation_id ''fedcba9876543210'' (PDict ev') = Inr (PStr ''mig-01234567'')"
    by (auto simp: g)
  with h1 h2 show ?thesis by blast
qed

text \<open>
  Claim C6 as stated, for every event dict without a correlation identifier, fails on
  an event whose \<open>detail\<close> is not a dict: \<open>extract_correlation_id\<close> generates an
  identifier, and \<open>inject_correlation_id\<close> raises TypeError on the item assignment, so
  there is no resulting event.
\<close>

theorem correlation_round_trip_counterexample:
  "no_correlation_id [(''detail'', PStr ''abc'')]
   \<and> extract_correlation_id ''0123456789abcdef'' (PDict [(''detail'', PStr ''abc'')])
       = Inr (PStr ''mig-01234567'')
   \<and> inject_correlation_id (PDict [(''detail'', PStr ''abc'')]) (PStr ''mig-01234567'')
       = Inl TypeError"
  by (simp add: no_correlation_id_def extract_correlation_id_def inject_correlation_id_def
        detail_has_correlation_def header_correlation_def generate_correlation_id_def)

section \<open>Properties of the handlers\<close>

lemmas handler_defs =
  extract_correlation_id_def detail_has_correlation_def header_correlation_def
  generate_correlation_id_def dict_get_def
  state_update_def update_migration_status_def item_of_def stored_attr_def stored_details_def
  publish_event_def publish_status_event_def publish_failure_event_def publish_success_event_def
  with_details_def py_update_def try_publish_failure_def raise_error_def Let_def


lemma publish_event_store:
  "publish_event env w dt d src = Inr (eid, w') \<Longrightarrow> store w' = store w"
  by (auto simp: publish_event_def split: sum.splits)


lemma try_publish_failure_store: "store (try_publish_failure env w mid cid e) = store w"
  by (auto simp: try_publish_failure_def publish_failure_event_def split: sum.splits
           dest: publish_event_store)

lemma try_publish_failure_events:
  "events (try_publish_failure env w mid cid e) =
     events w @
       (case bus env ''MigrationFailed''
               [(''migrationId'', mid), (''correlationId'', cid), (''status'', PStr ''FAILED''),
                (''errorCode'', PStr (exn_code e)), (''errorMessage'', PStr (exn_str e)),
                (''timestamp'', PStr (now env))] of
          Inl x \<Rightarrow> []
        | Inr event_id \<Rightarrow>
            [(''MigrationFailed'', ''migration.orchestration'',
              [(''migrationId'', mid), (''correlationId'', cid), (''status'', PStr ''FAILED''),
               (''errorCode'', PStr (exn_code e)), (''errorMessage'', PStr (exn_str e)),
               (''timestamp'', PStr (now env))])])"
  by (simp add: try_publish_failure_def publish_failure_event_def publish_event_def
        with_details_def split: sum.splits)

lemma publish_status_event_accepts:
  assumes "\<forall>d. \<exists>eid. bus env ''MigrationStatusUpdated'' d = Inr eid"
  shows "\<exists>eid w'. publish_status_event env w mid cid step status ds = Inr (eid, w')
           \<and> store w' = store w"
proof -
  let ?d = "with_details [(''migrationId'', mid), (''correlationId'', cid),
           (''currentStep'', PStr step), (''status'', PStr status),
           (''timestamp'', PStr (now env))] ds"
  from assms obtain eid where "bus env ''MigrationStatusUpdated'' ?d = Inr eid" by blast
  then show ?thesis by (simp add: publish_status_event_def publish_event_def)
qed

subsection \<open>prepare_source: the stored status is overwritten\<close>






subsection \<open>verify_migration: the replication lag threshold\<close>

lemma verify_steps_lag:
  assumes "check_mgn_replication_status env (dict_get detail ''sourceVmId'' (PStr [])) = Inr rs"
      and "dict_get rs ''replicationLag'' (PInt 0) = PInt lag" and "lag > 300"
  shows "verify_migration_steps env w detail cid mid = (Inl (lag_exceeded (PInt lag)), w)"
  using assms by (simp add: verify_migration_steps_def Let_def)

lemma verify_steps_ok:
  assumes "check_mgn_replication_status env (dict_get detail ''sourceVmId'' (PStr [])) = Inr rs"
      and "dict_get rs ''replicationLag'' (PInt 0) = PInt lag" and "lag \<le> 300"
      and "store_ok env" and "\<forall>d. \<exists>eid. bus env ''MigrationStatusUpdated'' d = Inr eid"
  shows "\<exists>resp w'. verify_migration_steps env w detail cid mid = (Inr resp, w')
      \<and> map_of resp ''statusCode'' = Some (PInt 200)
      \<and> stored_attr (store w') mid ''status'' = Some (PStr ''VERIFIED'')"
proof -
  let ?res = "[(''replication'', PDict rs),
               (''health'', PDict (check_application_health env detail))]"
  let ?w1 = "w\<lparr>store := update_migration_status (store w) (now env) mid ''VERIFIED''
                           (Some ?res)\<rparr>"
  have su: "state_update env w mid ''VERIFIED'' (Some ?res) = Inr ?w1"
    using assms(4) by (simp add: state_update_def)
  from publish_status_event_accepts
         [OF assms(5), where w="?w1" and mid=mid and cid=cid and step="''verify_migration''"
            and status="''SUCCESS''" and ds="Some ?res"]
  obtain eid w' where
    p: "publish_status_event env ?w1 mid cid ''verify_migration'' ''SUCCESS'' (Some ?res)
          = Inr (eid, w')" "store w' = store ?w1"
    by blast
  have st: "stored_attr (store w') mid ''status'' = Some (PStr ''VERIFIED'')"
    using p(2) by (simp add: stored_attr_update)
  show ?thesis using assms(1-3) su p(1) st
    by (simp add: verify_migration_steps_def Let_def)
qed

text \<open>
  Claim C4, as the code has it, for an event from which a correlation identifier is
  extracted, whose \<open>detail\<close> is a dict, and for which MGN reports an integer replication
  lag. The lag is compared with 300: \<open>validate_replication_lag\<close> accepts exactly the lags
  up to 300. A larger lag makes the handler answer 500 with the VerificationError as body
  (error code VERIFICATION_ERROR, the lag in its details); the stored record is left as it
  was; the failure event, with status FAILED and error code VERIFICATION_ERROR, is
  published when the bus takes it, and when the bus does not, nothing is published and
  the answer is the same. A lag up to 300 passes: when the store and the bus accept the
  writes, the answer is 200 and the stored status is VERIFIED.
\<close>

theorem verify_migration_lag_threshold:
  assumes "extract_correlation_id (uuid_hex env 0) (PDict event) = Inr cid"
      and "dict_get event ''detail'' (PDict []) = PDict detail"
      and "check_mgn_replication_status env (dict_get detail ''sourceVmId'' (PStr [])) = Inr rs"
      and "dict_get rs ''replicationLag'' (PInt 0) = PInt lag"
  shows "validate_replication_lag (PInt lag) 300 = Inr (lag \<le> 300)
     \<and> (lag > 300 \<longrightarrow>
          fst (verify_migration_lambda_handler env w event) =
            [(''statusCode'', PInt 500),
             (''body'', PDict [(''error_code'', PStr ''VERIFICATION_ERROR''),
                               (''message'', PStr ''Replication lag exceeds acceptable threshold''),
                               (''details'', PDict [(''lag'', PInt lag)])])]
          \<and> store (snd (verify_migration_lambda_handler env w event)) = store w
          \<and> events (snd (verify_migration_lambda_handler env w event)) =
              events w @
                (case bus env ''MigrationFailed''
                        (lag_failure_detail env (dict_get detail ''migrationId'' (PStr ''unknown''))
                           cid) of
                   Inl x \<Rightarrow> []
                 | Inr event_id \<Rightarrow>
                     [(''MigrationFailed'', ''migration.orchestration'',
                       lag_failure_detail env (dict_get detail ''migrationId'' (PStr ''unknown''))
                         cid)]))
     \<and> (lag \<le> 300 \<and> store_ok env
          \<and> (\<forall>d. \<exists>eid. bus env ''MigrationStatusUpdated'' d = Inr eid) \<longrightarrow>
          map_of (fst (verify_migration_lambda_handler env w event)) ''statusCode''
            = Some (PInt 200)
          \<and> stored_attr (store (snd (verify_migration_lambda_handler env w event)))
               (dict_get detail ''migrationId'' PNone) ''status'' = Some (PStr ''VERIFIED''))"
proof (intro conjI impI)
  show "validate_replication_lag (PInt lag) 300 = Inr (lag \<le> 300)" by auto
next
  assume "lag > 300"
  from verify_steps_lag[OF assms(3,4) this]
  show "fst (verify_migration_lambda_handler env w event) =
            [(''statusCode'', PInt 500),
             (''body'', PDict [(''error_code'', PStr ''VERIFICATION_ERROR''),
                               (''message'', PStr ''Replication lag exceeds acceptable threshold''),
                               (''details'', PDict [(''lag'', PInt lag)])])]"
    using assms(1,2)
    by (simp add: verify_migration_lambda_handler_def lag_exceeded_def raise_error_def)
next
  assume "lag > 300"
  from verify_steps_lag[OF assms(3,4) this]
  show "store (snd (verify_migration_lambda_handler env w event)) = store w"
    using assms(1,2)
    by (simp add: verify_migration_lambda_handler_def lag_exceeded_def raise_error_def
          try_publish_failure_store)
next
  assume "lag > 300"
  from verify_steps_lag[OF assms(3,4) this]
  show "events (snd (verify_migration_lambda_handler env w event)) =
              events w @
                (case bus env ''MigrationFailed''
                        (lag_failure_detail env (dict_get detail ''migrationId'' (PStr ''unknown''))
                           cid) of
                   Inl x \<Rightarrow> []
                 | Inr event_id \<Rightarrow>
                     [(''MigrationFailed'', ''migration.orchestration'',
                       lag_failure_detail env (dict_get detail ''migrationId'' (PStr ''unknown''))
                         cid)])"
    using assms(1,2)
    by (simp add: verify_migration_lambda_handler_def lag_exceeded_def raise_error_def
          try_publish_failure_events lag_failure_detail_def split: sum.splits)
next
  assume a: "lag \<le> 300 \<and> store_ok env
               \<and> (\<forall>d. \<exists>eid. bus env ''MigrationStatusUpdated'' d = Inr eid)"
  from verify_steps_ok
         [OF assms(3,4), where w=w and cid=cid and mid="dict_get detail ''migrationId'' PNone"] a
  obtain resp w' where
    r: "verify_migration_steps env w detail cid (dict_get detail ''migrationId'' PNone)
          = (Inr resp, w')"
       "map_of resp ''statusCode'' = Some (PInt 200)"
       "stored_attr (store w') (dict_get detail ''migrationId'' PNone) ''status''
          = Some (PStr ''VERIFIED'')"
    by blast
  then show "map_of (fst (verify_migration_lambda_handler env w event)) ''statusCode''
               = Some (PInt 200)"
    using assms(1,2) by (simp add: verify_migration_lambda_handler_def)
  from r show "stored_attr (store (snd (verify_migration_lambda_handler env w event)))
               (dict_get detail ''migrationId'' PNone) ''status'' = Some (PStr ''VERIFIED'')"
    using assms(1,2) by (simp add: verify_migration_lambda_handler_def)
qed

lemma verify_event_facts:
  "extract_correlation_id (uuid_hex (lag_env n) 0) (PDict verify_event)
     = Inr (PStr ''mig-c0ffee00'')
   \<and> dict_get verify_event ''detail'' (PDict [])
     = PDict [(''migrationId'', PStr ''mig-1''), (''correlation_id'', PStr ''mig-c0ffee00''),
              (''sourceVmId'', PStr ''s-1''), (''appName'', PStr ''billing-app'')]
   \<and> check_mgn_replication_status (lag_env n) v
     = Inr [(''replicationStatus'', PStr ''CONTINUOUS''), (''replicationLag'', PInt n),
            (''lastSeenByService'', PStr [])]
   \<and> store_ok (lag_env n)
   \<and> (\<forall>d. \<exists>eid. bus (lag_env n) ''MigrationStatusUpdated'' d = Inr eid)"
  by (simp add: verify_event_def lag_env_def quiet_env_def check_mgn_replication_status_def
        replication_status_info_def handler_defs)

lemma deaf_bus_facts:
  "extract_correlation_id (uuid_hex (deaf_bus_env n) 0) (PDict verify_event)
     = Inr (PStr ''mig-c0ffee00'')
   \<and> check_mgn_replication_status (deaf_bus_env n) v
     = Inr [(''replicationStatus'', PStr ''CONTINUOUS''), (''replicationLag'', PInt n),
            (''lastSeenByService'', PStr [])]
   \<and> bus (deaf_bus_env n) = (\<lambda>detail_type detail. Inl (PyException ''Exception'' ''bus down''))"
  by (simp add: verify_event_def deaf_bus_env_def lag_env_def quiet_env_def
        check_mgn_replication_status_def replication_status_info_def handler_defs)

theorem verify_migration_lag_threshold_witness:
  "map_of (fst (verify_migration_lambda_handler (lag_env 299) in_progress_world verify_event))
     ''statusCode'' = Some (PInt 200)
   \<and> stored_attr
        (store (snd (verify_migration_lambda_handler (lag_env 299) in_progress_world
                       verify_event)))
        (PStr ''mig-1'') ''status'' = Some (PStr ''VERIFIED'')
   \<and> fst (verify_migration_lambda_handler (lag_env 301) in_progress_world verify_event) =
        [(''statusCode'', PInt 500),
         (''body'', PDict [(''error_code'', PStr ''VERIFICATION_ERROR''),
                           (''message'', PStr ''Replication lag exceeds acceptable threshold''),
                           (''details'', PDict [(''lag'', PInt 301)])])]
   \<and> events (snd (verify_migration_lambda_handler (lag_env 301) in_progress_world
                      verify_event)) =
        [(''MigrationFailed'', ''migration.orchestration'',
          [(''migrationId'', PStr ''mig-1''), (''correlationId'', PStr ''mig-c0ffee00''),
           (''status'', PStr ''FAILED''), (''errorCode'', PStr ''VERIFICATION_ERROR''),
           (''errorMessage'', PStr ''Replication lag exceeds acceptable threshold''),
           (''timestamp'', PStr ''2024-01-02T00:00:00'')])]
   \<and> fst (verify_migration_lambda_handler (deaf_bus_env 301) in_progress_world verify_event) =
        [(''statusCode'', PInt 500),
         (''body'', PDict [(''error_code'', PStr ''VERIFICATION_ERROR''),
                           (''message'', PStr ''Replication lag exceeds acceptable threshold''),
                           (''details'', PDict [(''lag'', PInt 301)])])]
   \<and> events (snd (verify_migration_lambda_handler (deaf_bus_env 301) in_progress_world
                      verify_event)) = []"
proof -
  note f299 = verify_event_facts [of 299 "PStr ''s-1''"]
  note f301 = verify_event_facts [of 301 "PStr ''s-1''"]
  note g301 = deaf_bus_facts [of 301 "PStr ''s-1''"]
  have d: "dict_get [(''migrationId'', PStr ''mig-1''),
                     (''correlation_id'', PStr ''mig-c0ffee00''),
                     (''sourceVmId'', PStr ''s-1''), (''appName'', PStr ''billing-app'')]
             ''sourceVmId'' (PStr []) = PStr ''s-1''"
    by (simp add: dict_get_def)
  have l: "dict_get [(''replicationStatus'', PStr ''CONTINUOUS''), (''replicationLag'', PInt n),
                     (''lastSeenByService'', PStr [])] ''replicationLag'' (PInt 0) = PInt n"
    for n by (simp add: dict_get_def)
  have e: "events in_progress_world = []"
    by (simp add: in_progress_world_def)
  have b1: "bus (lag_env 301) = (\<lambda>detail_type detail. Inr ''evt-1'')"
           "now (lag_env 301) = ''2024-01-02T00:00:00''"
    by (simp_all add: lag_env_def quiet_env_def)
  from verify_migration_lag_threshold
         [where env="lag_env 299" and event=verify_event and w=in_progress_world and lag=299,
          OF conjunct1[OF f299] conjunct1[OF conjunct2[OF f299]]]
       f299 d l[of 299]
  have a: "map_of (fst (verify_migration_lambda_handler (lag_env 299) in_progress_world
                          verify_event)) ''statusCode'' = Some (PInt 200)
     \<and> stored_attr
        (store (snd (verify_migration_lambda_handler (lag_env 299) in_progress_world
                       verify_event)))
        (PStr ''mig-1'') ''status'' = Some (PStr ''VERIFIED'')"
    by (simp add: dict_get_def)
  from verify_migration_lag_threshold
         [where env="lag_env 301" and event=verify_event and w=in_progress_world and lag=301,
          OF conjunct1[OF f301] conjunct1[OF conjunct2[OF f301]]]
       f301 d l[of 301]
  have b: "fst (verify_migration_lambda_handler (lag_env 301) in_progress_world verify_event) =
        [(''statusCode'', PInt 500),
         (''body'', PDict [(''error_code'', PStr ''VERIFICATION_ERROR''),
                           (''message'', PStr ''Replication lag exceeds acceptable threshold''),
                           (''details'', PDict [(''lag'', PInt 301)])])]
     \<and> events (snd (verify_migration_lambda_handler (lag_env 301) in_progress_world
                      verify_event)) =
        [(''MigrationFailed'', ''migration.orchestration'',
          [(''migrationId'', PStr ''mig-1''), (''correlationId'', PStr ''mig-c0ffee00''),
           (''status'', PStr ''FAILED''), (''errorCode'', PStr ''VERIFICATION_ERROR''),
           (''errorMessage'', PStr ''Replication lag exceeds acceptable threshold''),
           (''timestamp'', PStr ''2024-01-02T00:00:00'')])]"
    by (simp add: dict_get_def e b1 lag_failure_detail_def)
  from verify_migration_lag_threshold
         [where env="deaf_bus_env 301" and event=verify_event and w=in_progress_world
            and lag=301,
          OF conjunct1[OF g301] conjunct1[OF conjunct2[OF f301]]]
       g301 d l[of 301]
  have c: "fst (verify_migration_lambda_handler (deaf_bus_env 301) in_progress_world
                  verify_event) =
        [(''statusCode'', PInt 500),
         (''body'', PDict [(''error_code'', PStr ''VERIFICATION_ERROR''),
                           (''message'', PStr ''Replication lag exceeds acceptable threshold''),
                           (''details'', PDict [(''lag'', PInt 301)])])]
     \<and> events (snd (verify_migration_lambda_handler (deaf_bus_env 301) in_progress_world
                      verify_event)) = []"
    by (simp add: dict_get_def e)
  from a b c show ?thesis by blast
qed

text \<open>
  Claim C4 as stated fails in how the failure surfaces: with a lag of 301 seconds the
  answer carries the error code VERIFICATION_ERROR, the published failure event has
  status FAILED, and the stored status stays MIGRATION_IN_PROGRESS. Nothing is set to
  VERIFICATION_FAILED.
\<close>

theorem verify_migration_lag_301_surfaces_as_error:
  "fst (verify_migration_lambda_handler (lag_env 301) in_progress_world verify_event) =
     [(''statusCode'', PInt 500),
      (''body'', PDict [(''error_code'', PStr ''VERIFICATION_ERROR''),
                        (''message'', PStr ''Replication lag exceeds acceptable threshold''),
                        (''details'', PDict [(''lag'', PInt 301)])])]
   \<and> stored_attr
        (store (snd (verify_migration_lambda_handler (lag_env 301) in_progress_world
                       verify_event)))
        (PStr ''mig-1'') ''status'' = Some (PStr ''MIGRATION_IN_PROGRESS'')
   \<and> map (\<lambda>(t, s, d). (t, map_of d ''status'', map_of d ''errorCode''))
        (events (snd (verify_migration_lambda_handler (lag_env 301) in_progress_world
                        verify_event)))
      = [(''MigrationFailed'', Some (PStr ''FAILED''), Some (PStr ''VERIFICATION_ERROR''))]"
  by (simp add: verify_migration_lambda_handler_def verify_migration_steps_def
      check_mgn_replication_status_def replication_status_info_def lag_exceeded_def
      lag_env_def quiet_env_def in_progress_world_def verify_event_def handler_defs)

subsection \<open>rollback_handler: what the compensations record\<close>





text \<open>
  Claim C3, evaluated on the code. The rollback handler of rollback_handler.py, run on a
  failure event of a migration that was only validated (no source VM id, no target
  instance, no job), stores the status ROLLED_BACK and answers 200, records the target
  instance step as SKIPPED, and records the source state step as FAILED:
  \<open>restore_source_state\<close> raises when the event names no source VM.
\<close>

theorem rollback_records_source_state_failed:
  "map_of (fst (rollback_lambda_handler quiet_env validated_world failure_event)) ''statusCode''
     = Some (PInt 200)
   \<and> stored_attr (store (snd (rollback_lambda_handler quiet_env validated_world failure_event)))
        (PStr ''mig-1'') ''status'' = Some (PStr ''ROLLED_BACK'')
   \<and> stored_details (store (snd (rollback_lambda_handler quiet_env validated_world failure_event)))
        (PStr ''mig-1'') ''targetInstance''
      = Some (PDict [(''status'', PStr ''SKIPPED''), (''reason'', PStr ''No target instance ID'')])
   \<and> stored_details (store (snd (rollback_lambda_handler quiet_env validated_world failure_event)))
        (PStr ''mig-1'') ''sourceState''
      = Some (PDict [(''status'', PStr ''FAILED''),
                     (''error'', PStr ''Source VM ID not provided for state restoration'')])"
  by (simp add: rollback_lambda_handler_def rollback_results_def restore_source_state_def
      terminate_target_instance_def step_result_def step_failed_def notify_stakeholders_def
      quiet_env_def validated_world_def validated_table_def failure_event_def handler_defs)

lemma rollback_handler_world:
  assumes "extract_correlation_id (uuid_hex env 0) (PDict event) = Inr cid"
      and "dict_get event ''detail'' (PDict []) = PDict detail"
      and "store_ok env"
  shows "store (snd (rollback_lambda_handler env w event)) =
           update_migration_status (store w) (now env) (dict_get detail ''migrationId'' PNone)
             ''ROLLED_BACK''
             (Some (rollback_results env detail (dict_get detail ''migrationId'' PNone)))"
  using assms
  by (auto simp: rollback_lambda_handler_def state_update_def Let_def
      split: sum.splits prod.splits dest!: publish_event_store)





subsection \<open>callback_handler: a failed delivery\<close>

lemma extract_any_uuid:
  "extract_correlation_id u ev = Inr c \<Longrightarrow> \<exists>c'. extract_correlation_id u' ev = Inr c'"
  by (auto simp: extract_correlation_id_def split: sum.splits bool.splits option.splits)

lemma format_callback_payload_ok:
  assumes "extract_correlation_id u (PDict event) = Inr c"
      and "dict_get event ''detail'' (PDict []) = PDict detail"
  shows "\<exists>p. format_callback_payload env event = Inr p"
  using extract_any_uuid[OF assms(1), of "uuid_hex env 1"] assms(2)
  by (auto simp: format_callback_payload_def Let_def)

lemma send_callback_fails:
  assumes "delivery_fails env"
  shows "\<exists>reason. send_callback env url p = Inl (callback_error reason url)"
  using assms by (auto simp: delivery_fails_def send_callback_def split: http_outcome.splits)

text \<open>
  Claim C7, as the code has it. When the handler of callback_handler.py attempts the
  delivery (the event's \<open>detail\<close> is a dict with a truthy \<open>callbackUrl\<close>) and the delivery
  fails with a request exception or a 4xx/5xx answer, the handler does not raise: it
  returns status code 200 with a body whose status is CALLBACK_FAILED and whose error is
  the CALLBACK_ERROR with its message and the URL.
\<close>

theorem callback_failure_is_reported:
  assumes "extract_correlation_id (uuid_hex env 0) (PDict event) = Inr cid"
      and "dict_get event ''detail'' (PDict []) = PDict detail"
      and "py_truthy (dict_get detail ''callbackUrl'' PNone)"
      and "delivery_fails env"
  shows "\<exists>reason. callback_lambda_handler env event =
           Inr [(''statusCode'', PInt 200),
                (''body'',
                 PDict [(''migrationId'', dict_get detail ''migrationId'' (PStr ''unknown'')),
                        (''status'', PStr ''CALLBACK_FAILED''),
                        (''error'',
                         PDict [(''error_code'', PStr ''CALLBACK_ERROR''),
                                (''message'', PStr (''Callback request failed: '' @ reason)),
                                (''details'',
                                 PDict [(''url'', dict_get detail ''callbackUrl'' PNone)])])])]"
proof -
  from format_callback_payload_ok[OF assms(1,2)]
  obtain p where p: "format_callback_payload env event = Inr p" by blast
  from send_callback_fails[OF assms(4)] obtain reason where
    s: "send_callback env (dict_get detail ''callbackUrl'' PNone) p
          = Inl (callback_error reason (dict_get detail ''callbackUrl'' PNone))" by blast
  show ?thesis
    using assms(1-3) p s
    by (simp add: callback_lambda_handler_def Let_def callback_except_def callback_error_def
          dict_get_def split: option.splits)
qed

lemma completed_event_facts:
  "extract_correlation_id (uuid_hex unreachable_env 0) (PDict completed_event)
     = Inr (PStr ''mig-c0ffee00'')
   \<and> dict_get completed_event ''detail'' (PDict [])
     = PDict [(''migrationId'', PStr ''mig-1''), (''correlation_id'', PStr ''mig-c0ffee00''),
              (''status'', PStr ''SUCCESS''),
              (''callbackUrl'', PStr ''https://example.invalid/hook'')]
   \<and> delivery_fails unreachable_env"
  by (simp add: unreachable_env_def quiet_env_def completed_event_def delivery_fails_def
        handler_defs)

theorem callback_failure_is_reported_witness:
  "delivery_fails unreachable_env
   \<and> (\<exists>reason. callback_lambda_handler unreachable_env completed_event =
         Inr [(''statusCode'', PInt 200),
              (''body'',
               PDict [(''migrationId'', PStr ''mig-1''),
                      (''status'', PStr ''CALLBACK_FAILED''),
                      (''error'',
                       PDict [(''error_code'', PStr ''CALLBACK_ERROR''),
                              (''message'', PStr (''Callback request failed: '' @ reason)),
                              (''details'',
                               PDict [(''url'', PStr ''https://example.invalid/hook'')])])])])"
proof -
  note f = completed_event_facts
  have t: "py_truthy (dict_get [(''migrationId'', PStr ''mig-1''),
              (''correlation_id'', PStr ''mig-c0ffee00''), (''status'', PStr ''SUCCESS''),
              (''callbackUrl'', PStr ''https://example.invalid/hook'')] ''callbackUrl'' PNone)"
    by (simp add: dict_get_def)
  from callback_failure_is_reported
         [OF conjunct1[OF f] conjunct1[OF conjunct2[OF f]] t conjunct2[OF conjunct2[OF f]]]
  show ?thesis using f by (simp add: dict_get_def)
qed

text \<open>
  Claim C7 as stated fails in what the answer reports: with the callback target
  unreachable, the body's status is CALLBACK_FAILED, not COMPLETED, and neither the
  answer nor its body has a \<open>callbackSent\<close> field.
\<close>

theorem callback_failure_has_no_callback_sent:
  "callback_lambda_handler unreachable_env completed_event =
     Inr [(''statusCode'', PInt 200),
          (''body'',
           PDict [(''migrationId'', PStr ''mig-1''),
                  (''status'', PStr ''CALLBACK_FAILED''),
                  (''error'',
                   PDict [(''error_code'', PStr ''CALLBACK_ERROR''),
                          (''message'', PStr ''Callback request failed: Connection timed out''),
                          (''details'',
                           PDict [(''url'', PStr ''https://example.invalid/hook'')])])])]"
  by (simp add: callback_lambda_handler_def callback_except_def callback_error_def
      format_callback_payload_def send_callback_def unreachable_env_def quiet_env_def
      completed_event_def handler_defs)

subsection \<open>ingress_handler: the report of a batch\<close>











end
